theory Spec2Isabelle
  imports Main "HOL-Library.AList" "HOL-Library.Sublist"
begin

section \<open>JavaScript values, errors and configuration\<close>

text \<open>
  A thrown JavaScript \<^verbatim>\<open>Error\<close> is a value carrying its message; a computation that may
  throw returns \<open>error + 'a\<close>, with \<open>Inl\<close> for the throw. A value that may be
  \<^verbatim>\<open>undefined\<close> is an \<open>option\<close>, with \<open>None\<close> for \<^verbatim>\<open>undefined\<close>.
  Logging through \<^verbatim>\<open>console.log\<close> is not part of what an HTTP caller observes and is
  left out.
\<close>

datatype error = Error string

text \<open>What \<^verbatim>\<open>express.json()\<close> can put into a property of the request body.\<close>

datatype jv =
    JNull
  | JBool bool
  | JNum int
  | JStr string
  | JArr "jv list"
  | JObj "(string \<times> jv) list"

text \<open>A template literal prints \<^verbatim>\<open>undefined\<close> for a missing environment variable.\<close>

definition template :: "string option \<Rightarrow> string" where
  "template v = (case v of None \<Rightarrow> ''undefined'' | Some s \<Rightarrow> s)"

record process_env =
  AWS_REGION :: "string option"
  AWS_USER_POOL_ID :: "string option"
  AWS_POOL_CLIENT_ID :: "string option"

record aws_config =
  awsRegion :: "string option"
  clientId :: "string option"
  poolId :: "string option"
  awsTokenIssuer :: string

definition Configs :: "process_env \<Rightarrow> aws_config" where
  "Configs pe =
     \<lparr> awsRegion = AWS_REGION pe,
       clientId = AWS_POOL_CLIENT_ID pe,
       poolId = AWS_USER_POOL_ID pe,
       awsTokenIssuer =
         ''https://cognito-idp.'' @ template (AWS_REGION pe) @ ''.amazonaws.com/''
           @ template (AWS_USER_POOL_ID pe) \<rparr>"

section \<open>The patient entity, the two stores and the responses\<close>

text \<open>
  A patient object as the create route builds it: the key and the four properties read
  from the request body, each of them any JSON value or \<^verbatim>\<open>undefined\<close>.
\<close>

record patient =
  PatientID :: string
  Name :: "jv option"
  Address :: "jv option"
  Conditions :: "jv option"
  Allergies :: "jv option"

text \<open>The four values of an update (\<^verbatim>\<open>Partial<Patient>\<close>: each may be missing).\<close>

record update_data =
  upd_Name :: "jv option"
  upd_Address :: "jv option"
  upd_Conditions :: "jv option"
  upd_Allergies :: "jv option"

text \<open>
  Every call the service makes on the DynamoDB document client and on the OpenSearch
  client. The world keeps the list of the calls made, in order.
\<close>

datatype search_field = ConditionsField | AddressField

datatype backend_call =
    GetCommand string
  | PutCommand patient
  | UpdateCommand string update_data
  | DeleteCommand string
  | QueryCommand "string option"
  | ScanCommand "string option"
  | OpenSearchIndex string patient
  | OpenSearchDelete string
  | OpenSearchSearch search_field "string option"

record world =
  table :: "patient list"
  os_index :: "(string \<times> patient) list"
  calls :: "backend_call list"

datatype data =
    DPatient patient
  | DUpdateCommandOutput
  | DDeleteCommandOutput
  | DHits "(string \<times> patient) list"
  | DItems "patient list"
  | DItem "patient option"

record envelope =
  statusCode :: string
  data :: data
  description :: string

datatype body = Text string | Json envelope | Html string

record response =
  status :: nat
  body :: body

section \<open>Token verifier (authentication.middleware.ts)\<close>

record jwt_header =
  kid :: "string option"

record token_payload =
  client_id :: "string option"
  iss :: "string option"
  exp :: "int option"

text \<open>
  The libraries the middleware calls are outside the repository; what they return is
  given by the environment of a request:
  \<^item> \<open>jwt_decode\<close>: \<^verbatim>\<open>jwt.decode(token, {complete: true})\<close>, \<open>None\<close> for \<^verbatim>\<open>null\<close>;
  \<^item> \<open>getSigningKey\<close>: \<^verbatim>\<open>client.getSigningKey(kid)\<close> followed by
    \<^verbatim>\<open>key.getPublicKey()\<close>, for the client built on a JWKS URI;
  \<^item> \<open>cognito_verify\<close>: \<^verbatim>\<open>verifier.verify(accessToken)\<close> for the verifier created from
    the pool id, the client id and the public key; it throws or resolves to the payload
    (\<open>None\<close> stands for a falsy payload, which the middleware tests for);
  \<^item> \<open>getTime\<close>: \<^verbatim>\<open>new Date().getTime()\<close>, milliseconds since the epoch;
  \<^item> \<open>uuidv4\<close>: the identifier \<^verbatim>\<open>uuidv4()\<close> returns for this request;
  \<^item> \<open>fault\<close>: whether a call on DynamoDB or OpenSearch throws, and with which error;
  \<^item> \<open>scan_page\<close>: how many items of the table, from its start in scan order, DynamoDB
    reads for one \<^verbatim>\<open>Scan\<close> request before the page of the response is full;
  \<^item> \<open>query_page\<close>: how many of the items that match the key condition fit the page of
    the response to one \<^verbatim>\<open>Query\<close> request;
  \<^item> \<open>opensearch_match\<close>: the hits OpenSearch returns for a match query on a field.
\<close>

record env =
  jwt_decode :: "string \<Rightarrow> jwt_header option"
  getSigningKey :: "string \<Rightarrow> string \<Rightarrow> error + string"
  cognito_verify :: "string option \<Rightarrow> string option \<Rightarrow> string \<Rightarrow> string \<Rightarrow> error + token_payload option"
  getTime :: int
  uuidv4 :: string
  fault :: "backend_call \<Rightarrow> error option"
  scan_page :: "patient list \<Rightarrow> nat"
  query_page :: "patient list \<Rightarrow> nat"
  opensearch_match :: "search_field \<Rightarrow> string option \<Rightarrow> (string \<times> patient) list \<Rightarrow> (string \<times> patient) list"

definition jwksUri :: "aws_config \<Rightarrow> string" where
  "jwksUri cfg =
     ''https://cognito-idp.'' @ template (awsRegion cfg) @ ''.amazonaws.com/''
       @ template (poolId cfg) @ ''/.well-known/jwks.json''"

definition fetchJWKS :: "env \<Rightarrow> aws_config \<Rightarrow> string \<Rightarrow> error + string" where
  "fetchJWKS e cfg token =
     (case jwt_decode e token of
        None \<Rightarrow> Inl (Error ''Access denied'')
      | Some decodedJwt \<Rightarrow>
          (case kid decodedJwt of
             None \<Rightarrow> Inl (Error ''Access denied'')
           | Some k \<Rightarrow>
               if k = [] then Inl (Error ''Access denied'')
               else (case getSigningKey e (jwksUri cfg) k of
                       Inl err \<Rightarrow> Inl (Error ''Access denied'')
                     | Inr publicKey \<Rightarrow> Inr publicKey)))"

definition verifyToken ::
  "env \<Rightarrow> aws_config \<Rightarrow> string \<Rightarrow> string \<Rightarrow> error + token_payload option" where
  "verifyToken e cfg accessToken publicKey =
     (case cognito_verify e (poolId cfg) (clientId cfg) publicKey accessToken of
        Inl err \<Rightarrow> Inl (Error ''Access denied'')
      | Inr payload \<Rightarrow> Inr payload)"

text \<open>
  \<^verbatim>\<open>Math.round(new Date().getTime() / 1000)\<close>: rounding to the nearest integer, a half
  upwards, which on a whole number of milliseconds is \<open>(ms + 500) div 1000\<close>.
\<close>

definition currentTimeInSeconds :: "int \<Rightarrow> int" where
  "currentTimeInSeconds ms = (ms + 500) div 1000"

text \<open>\<^verbatim>\<open>currentTimeInSeconds <= tokenData.exp\<close>; a missing \<^verbatim>\<open>exp\<close> compares false.\<close>

definition not_expired :: "int \<Rightarrow> int option \<Rightarrow> bool" where
  "not_expired now e = (case e of None \<Rightarrow> False | Some t \<Rightarrow> now \<le> t)"

text \<open>
  The body of the \<^verbatim>\<open>try\<close> block: \<open>Inr ()\<close> is reaching \<^verbatim>\<open>next()\<close>. The header
  is falsy when it is missing or empty, the key identifier likewise.
\<close>

definition authenticate_try :: "env \<Rightarrow> aws_config \<Rightarrow> string option \<Rightarrow> error + unit" where
  "authenticate_try e cfg token =
     (case token of
        None \<Rightarrow> Inl (Error ''Access denied'')
      | Some t \<Rightarrow>
          if t = [] then Inl (Error ''Access denied'')
          else
            (case fetchJWKS e cfg t of
               Inl err \<Rightarrow> Inl err
             | Inr publicKey \<Rightarrow>
                 (case verifyToken e cfg t publicKey of
                    Inl err \<Rightarrow> Inl err
                  | Inr None \<Rightarrow> Inl (Error ''Access denied'')
                  | Inr (Some tokenData) \<Rightarrow>
                      if publicKey = [] then Inl (Error ''Access denied'')
                      else
                        if client_id tokenData = clientId cfg
                           \<and> iss tokenData = Some (awsTokenIssuer cfg)
                           \<and> not_expired (currentTimeInSeconds (getTime e)) (exp tokenData)
                        then Inr ()
                        else Inl (Error ''Access denied''))))"

datatype auth_result = Next | Send response

text \<open>The \<^verbatim>\<open>catch\<close> block answers every error of the \<^verbatim>\<open>try\<close> block the same way.\<close>

definition authenticate :: "env \<Rightarrow> aws_config \<Rightarrow> string option \<Rightarrow> auth_result" where
  "authenticate e cfg token =
     (case authenticate_try e cfg token of
        Inl err \<Rightarrow> Send \<lparr> status = 401, body = Text ''Access denied'' \<rparr>
      | Inr u \<Rightarrow> Next)"

section \<open>What DynamoDB and OpenSearch do with a call that succeeds\<close>

text \<open>
  The table \<^verbatim>\<open>Patients\<close> is a collection of items keyed by their \<^verbatim>\<open>PatientID\<close>. The
  effect of each command is the one the DynamoDB API documents: \<^verbatim>\<open>PutItem\<close> writes or
  replaces the item with the key of the given item; \<^verbatim>\<open>UpdateItem\<close> with a \<^verbatim>\<open>SET\<close>
  expression and no condition edits the item with the key or, when there is none, adds
  an item with the key and the attributes set; \<^verbatim>\<open>DeleteItem\<close> removes the item with
  the key and does nothing when there is none. A \<^verbatim>\<open>Scan\<close> request reads one page of the
  table and filters it, a \<^verbatim>\<open>Query\<close> request returns one page of the items that match;
  the source sends one request for each and never asks for the page after
  (\<^verbatim>\<open>LastEvaluatedKey\<close> is not read), so the length of the page is a parameter here.
\<close>

definition ddb_get :: "patient list \<Rightarrow> string \<Rightarrow> patient option" where
  "ddb_get tbl k = find (\<lambda>p. PatientID p = k) tbl"

definition ddb_put :: "patient list \<Rightarrow> patient \<Rightarrow> patient list" where
  "ddb_put tbl item = item # filter (\<lambda>p. PatientID p \<noteq> PatientID item) tbl"

definition ddb_delete :: "patient list \<Rightarrow> string \<Rightarrow> patient list" where
  "ddb_delete tbl k = filter (\<lambda>p. PatientID p \<noteq> k) tbl"

text \<open>
  \<^verbatim>\<open>SET #name = :name, #address = :address, #conditions = :conditions,
  #allergies = :allergies\<close> on the item with key \<open>k\<close>.
\<close>

definition ddb_update :: "patient list \<Rightarrow> string \<Rightarrow> update_data \<Rightarrow> patient list" where
  "ddb_update tbl k u =
     (case ddb_get tbl k of
        None \<Rightarrow>
          \<lparr> PatientID = k, Name = upd_Name u, Address = upd_Address u,
            Conditions = upd_Conditions u, Allergies = upd_Allergies u \<rparr> # tbl
      | Some old \<Rightarrow>
          map (\<lambda>p. if PatientID p = k
                    then p\<lparr> Name := upd_Name u, Address := upd_Address u,
                           Conditions := upd_Conditions u, Allergies := upd_Allergies u \<rparr>
                    else p) tbl)"

text \<open>
  An expression whose attribute value is \<^verbatim>\<open>undefined\<close> is refused: the command throws
  and nothing is written or read.
\<close>

definition values_defined :: "update_data \<Rightarrow> bool" where
  "values_defined u =
     (upd_Name u \<noteq> None \<and> upd_Address u \<noteq> None \<and> upd_Conditions u \<noteq> None
      \<and> upd_Allergies u \<noteq> None)"

text \<open>
  The condition function \<^verbatim>\<open>contains(path, operand)\<close> with a string operand: true when
  the attribute is a string that has the operand as a substring, or a list that has the
  operand as an element; false for a missing attribute and for every other type. (A
  JavaScript array is stored as a DynamoDB list, a JavaScript string as a string.)
\<close>

fun ddb_contains :: "jv option \<Rightarrow> string \<Rightarrow> bool" where
  "ddb_contains (Some (JStr s)) t = sublist t s"
| "ddb_contains (Some (JArr xs)) t = (JStr t \<in> set xs)"
| "ddb_contains v t = False"

definition ddb_scan :: "nat \<Rightarrow> patient list \<Rightarrow> string \<Rightarrow> patient list" where
  "ddb_scan page tbl t = filter (\<lambda>p. ddb_contains (Conditions p) t) (take page tbl)"

text \<open>\<^verbatim>\<open>Address = :address\<close> on the index \<^verbatim>\<open>Address-index\<close>.\<close>

definition ddb_query :: "nat \<Rightarrow> patient list \<Rightarrow> string \<Rightarrow> patient list" where
  "ddb_query page tbl a = take page (filter (\<lambda>p. Address p = Some (JStr a)) tbl)"

definition table_ids :: "patient list \<Rightarrow> string set" where
  "table_ids tbl = PatientID ` set tbl"

definition index_ids :: "(string \<times> patient) list \<Rightarrow> string set" where
  "index_ids idx = fst ` set idx"

text \<open>Every call is recorded before its outcome is known.\<close>

definition invoke :: "backend_call \<Rightarrow> world \<Rightarrow> world" where
  "invoke c w = w\<lparr> calls := calls w @ [c] \<rparr>"

section \<open>Search index adapter (search.ts)\<close>

definition indexPatient :: "env \<Rightarrow> world \<Rightarrow> patient \<Rightarrow> (error + unit) \<times> world" where
  "indexPatient e w patientData =
     (let c = OpenSearchIndex (PatientID patientData) patientData; w1 = invoke c w in
      case fault e c of
        Some err \<Rightarrow> (Inl (Error ''Error occurred while indexing the patient in opensearch''), w1)
      | None \<Rightarrow>
          (Inr (), w1\<lparr> os_index := AList.update (PatientID patientData) patientData (os_index w1) \<rparr>))"

definition removePatientFromOpenSearch ::
  "env \<Rightarrow> world \<Rightarrow> string \<Rightarrow> (error + unit) \<times> world" where
  "removePatientFromOpenSearch e w k =
     (let c = OpenSearchDelete k; w1 = invoke c w in
      case fault e c of
        Some err \<Rightarrow> (Inl (Error ''Failed to remove patient from OpenSearch''), w1)
      | None \<Rightarrow> (Inr (), w1\<lparr> os_index := AList.delete k (os_index w1) \<rparr>))"

definition searchByCondition ::
  "env \<Rightarrow> world \<Rightarrow> string option \<Rightarrow> (error + (string \<times> patient) list) \<times> world" where
  "searchByCondition e w condition =
     (let c = OpenSearchSearch ConditionsField condition; w1 = invoke c w in
      case fault e c of
        Some err \<Rightarrow>
          (Inl (Error ''Error occurred while searching patient by condition from OpenSearch''), w1)
      | None \<Rightarrow> (Inr (opensearch_match e ConditionsField condition (os_index w1)), w1))"

definition searchByAddress ::
  "env \<Rightarrow> world \<Rightarrow> string option \<Rightarrow> (error + (string \<times> patient) list) \<times> world" where
  "searchByAddress e w address =
     (let c = OpenSearchSearch AddressField address; w1 = invoke c w in
      case fault e c of
        Some err \<Rightarrow>
          (Inl (Error ''Error occurred while searching patient by address from OpenSearch''), w1)
      | None \<Rightarrow> (Inr (opensearch_match e AddressField address (os_index w1)), w1))"

section \<open>Record store adapter (dynamo.ts)\<close>

definition getPatient :: "env \<Rightarrow> world \<Rightarrow> string \<Rightarrow> (error + patient option) \<times> world" where
  "getPatient e w k =
     (let c = GetCommand k; w1 = invoke c w in
      case fault e c of
        Some err \<Rightarrow> (Inl err, w1)
      | None \<Rightarrow> (Inr (ddb_get (table w1) k), w1))"

definition createPatient :: "env \<Rightarrow> world \<Rightarrow> patient \<Rightarrow> (error + patient) \<times> world" where
  "createPatient e w patientData =
     (let c = PutCommand patientData; w1 = invoke c w in
      case fault e c of
        Some err \<Rightarrow> (Inl (Error ''Error occurred while creating the patient''), w1)
      | None \<Rightarrow>
          (case indexPatient e (w1\<lparr> table := ddb_put (table w1) patientData \<rparr>) patientData of
             (Inl err, w2) \<Rightarrow> (Inl (Error ''Error occurred while creating the patient''), w2)
           | (Inr u, w2) \<Rightarrow> (Inr patientData, w2)))"

text \<open>
  \<open>updateData\<close> is the request body as it is; reading a property of an \<^verbatim>\<open>undefined\<close>
  body throws inside the \<^verbatim>\<open>try\<close> block before any command is sent.
\<close>

type_synonym js_object = "string \<Rightarrow> jv option"

definition ExpressionAttributeValues :: "js_object \<Rightarrow> update_data" where
  "ExpressionAttributeValues updateData =
     \<lparr> upd_Name = updateData ''Name'', upd_Address = updateData ''Address'',
       upd_Conditions = updateData ''Conditions'', upd_Allergies = updateData ''Allergies'' \<rparr>"

definition updatePatient ::
  "env \<Rightarrow> world \<Rightarrow> string \<Rightarrow> js_object option \<Rightarrow> (error + unit) \<times> world" where
  "updatePatient e w k updateData =
     (case updateData of
        None \<Rightarrow> (Inl (Error ''Error occurred while updating the patient''), w)
      | Some b \<Rightarrow>
          (let c = UpdateCommand k (ExpressionAttributeValues b); w1 = invoke c w in
           if \<not> values_defined (ExpressionAttributeValues b)
           then (Inl (Error ''Error occurred while updating the patient''), w1)
           else
             (case fault e c of
                Some err \<Rightarrow> (Inl (Error ''Error occurred while updating the patient''), w1)
              | None \<Rightarrow>
                  (Inr (), w1\<lparr> table := ddb_update (table w1) k (ExpressionAttributeValues b) \<rparr>))))"

definition deletePatient :: "env \<Rightarrow> world \<Rightarrow> string \<Rightarrow> (error + unit) \<times> world" where
  "deletePatient e w k =
     (let c = DeleteCommand k; w1 = invoke c w in
      case fault e c of
        Some err \<Rightarrow> (Inl (Error ''Error occurred while deleting the patient''), w1)
      | None \<Rightarrow>
          (case removePatientFromOpenSearch e (w1\<lparr> table := ddb_delete (table w1) k \<rparr>) k of
             (Inl err, w2) \<Rightarrow> (Inl (Error ''Error occurred while deleting the patient''), w2)
           | (Inr u, w2) \<Rightarrow> (Inr (), w2)))"

definition findPatientsByAddress ::
  "env \<Rightarrow> world \<Rightarrow> string option \<Rightarrow> (error + patient list) \<times> world" where
  "findPatientsByAddress e w address =
     (let c = QueryCommand address; w1 = invoke c w in
      case address of
        None \<Rightarrow> (Inl (Error ''Error occurred while fetching the patient by address''), w1)
      | Some a \<Rightarrow>
          (case fault e c of
             Some err \<Rightarrow> (Inl (Error ''Error occurred while fetching the patient by address''), w1)
           | None \<Rightarrow>
               (Inr (ddb_query
                       (query_page e (filter (\<lambda>p. Address p = Some (JStr a)) (table w1)))
                       (table w1) a), w1)))"

definition findPatientsByCondition ::
  "env \<Rightarrow> world \<Rightarrow> string option \<Rightarrow> (error + patient list) \<times> world" where
  "findPatientsByCondition e w input =
     (let c = ScanCommand input; w1 = invoke c w in
      case input of
        None \<Rightarrow> (Inl (Error ''Error occurred while fetching the patient by condition''), w1)
      | Some t \<Rightarrow>
          (case fault e c of
             Some err \<Rightarrow> (Inl (Error ''Error occurred while fetching the patient by condition''), w1)
           | None \<Rightarrow> (Inr (ddb_scan (scan_page e (table w1)) (table w1) t), w1)))"

section \<open>HTTP routing layer (index.ts)\<close>

text \<open>
  The routes as Express matches them, with the path parameter or the query parameter
  the handler reads (a query parameter is a string or is missing). The four fixed paths under
  \<^verbatim>\<open>/patients/\<close> are registered before \<^verbatim>\<open>/patients/:id\<close>.
\<close>

datatype route =
    GET_root
  | POST_patients
  | PATCH_patients_id string
  | DELETE_patients_id string
  | GET_patients_search_condition "string option"
  | GET_patients_search_address "string option"
  | GET_patients_address "string option"
  | GET_patients_condition "string option"
  | GET_patients_id string

record request =
  authorization :: "string option"
  route :: route
  req_body :: "js_object option"

definition something_went_wrong :: response where
  "something_went_wrong = \<lparr> status = 500, body = Text ''Something went wrong!'' \<rparr>"

definition json :: "nat \<Rightarrow> string \<Rightarrow> data \<Rightarrow> string \<Rightarrow> response" where
  "json code sc d descr =
     \<lparr> status = code, body = Json \<lparr> statusCode = sc, data = d, description = descr \<rparr> \<rparr>"

text \<open>Destructuring an \<^verbatim>\<open>undefined\<close> body throws inside the handler's \<^verbatim>\<open>try\<close> block.\<close>

definition post_patients :: "env \<Rightarrow> world \<Rightarrow> request \<Rightarrow> response \<times> world" where
  "post_patients e w req =
     (case req_body req of
        None \<Rightarrow> (something_went_wrong, w)
      | Some b \<Rightarrow>
          (let patientData =
                 \<lparr> PatientID = uuidv4 e, Name = b ''Name'', Address = b ''Address'',
                   Conditions = b ''Conditions'', Allergies = b ''Allergies'' \<rparr> in
           case createPatient e w patientData of
             (Inl err, w') \<Rightarrow> (something_went_wrong, w')
           | (Inr result, w') \<Rightarrow>
               (json 201 ''CREATED_SUCCESSFULLY'' (DPatient result) ''Patient created successfully'',
                w')))"

definition patch_patients_id :: "env \<Rightarrow> world \<Rightarrow> string \<Rightarrow> request \<Rightarrow> response \<times> world" where
  "patch_patients_id e w k req =
     (case updatePatient e w k (req_body req) of
        (Inl err, w') \<Rightarrow> (something_went_wrong, w')
      | (Inr result, w') \<Rightarrow>
          (json 200 ''UPDATED_SUCCESSFULLY'' DUpdateCommandOutput ''Patient updated successfully'',
           w'))"

definition delete_patients_id :: "env \<Rightarrow> world \<Rightarrow> string \<Rightarrow> response \<times> world" where
  "delete_patients_id e w k =
     (case deletePatient e w k of
        (Inl err, w') \<Rightarrow> (something_went_wrong, w')
      | (Inr result, w') \<Rightarrow>
          (json 200 ''DELETED_SUCCESSFULLY'' DDeleteCommandOutput ''Patient deleted successfully'',
           w'))"

definition get_patients_search_condition ::
  "env \<Rightarrow> world \<Rightarrow> string option \<Rightarrow> response \<times> world" where
  "get_patients_search_condition e w condition =
     (case searchByCondition e w condition of
        (Inl err, w') \<Rightarrow> (something_went_wrong, w')
      | (Inr result, w') \<Rightarrow>
          (json 200 ''SEARCHED_SUCCESSFULLY'' (DHits result) ''Patient searched successfully'', w'))"

definition get_patients_search_address ::
  "env \<Rightarrow> world \<Rightarrow> string option \<Rightarrow> response \<times> world" where
  "get_patients_search_address e w address =
     (case searchByAddress e w address of
        (Inl err, w') \<Rightarrow> (something_went_wrong, w')
      | (Inr result, w') \<Rightarrow>
          (json 200 ''SEARCHED_SUCCESSFULLY'' (DHits result) ''Patient searched successfully'', w'))"

definition get_patients_address :: "env \<Rightarrow> world \<Rightarrow> string option \<Rightarrow> response \<times> world" where
  "get_patients_address e w address =
     (case findPatientsByAddress e w address of
        (Inl err, w') \<Rightarrow> (something_went_wrong, w')
      | (Inr result, w') \<Rightarrow>
          (json 200 ''FETCHED_SUCCESSFULLY'' (DItems result) ''Patient fetched successfully'', w'))"

definition get_patients_condition :: "env \<Rightarrow> world \<Rightarrow> string option \<Rightarrow> response \<times> world" where
  "get_patients_condition e w condition =
     (case findPatientsByCondition e w condition of
        (Inl err, w') \<Rightarrow> (something_went_wrong, w')
      | (Inr result, w') \<Rightarrow>
          (json 200 ''FETCHED_SUCCESSFULLY'' (DItems result) ''Patient fetched successfully'', w'))"

definition get_patients_id :: "env \<Rightarrow> world \<Rightarrow> string \<Rightarrow> response \<times> world" where
  "get_patients_id e w k =
     (case getPatient e w k of
        (Inl err, w') \<Rightarrow> (something_went_wrong, w')
      | (Inr result, w') \<Rightarrow>
          (json 200 ''FETCHED_SUCCESSFULLY'' (DItem result) ''Patient fetched successfully'', w'))"

text \<open>The handler of a route, run once \<^verbatim>\<open>authenticate\<close> has called \<^verbatim>\<open>next()\<close>.\<close>

fun handler :: "env \<Rightarrow> world \<Rightarrow> request \<Rightarrow> route \<Rightarrow> response \<times> world" where
  "handler e w req GET_root = (\<lparr> status = 200, body = Text ''Patient Management API'' \<rparr>, w)"
| "handler e w req POST_patients = post_patients e w req"
| "handler e w req (PATCH_patients_id k) = patch_patients_id e w k req"
| "handler e w req (DELETE_patients_id k) = delete_patients_id e w k"
| "handler e w req (GET_patients_search_condition c) = get_patients_search_condition e w c"
| "handler e w req (GET_patients_search_address a) = get_patients_search_address e w a"
| "handler e w req (GET_patients_address a) = get_patients_address e w a"
| "handler e w req (GET_patients_condition c) = get_patients_condition e w c"
| "handler e w req (GET_patients_id k) = get_patients_id e w k"

definition protected :: "route \<Rightarrow> bool" where
  "protected r = (r \<noteq> GET_root)"

text \<open>
  The route stack: every route but the health check runs \<^verbatim>\<open>authenticate\<close> first, and
  its handler only when \<^verbatim>\<open>authenticate\<close> calls \<^verbatim>\<open>next()\<close>.
\<close>

definition routes :: "env \<Rightarrow> aws_config \<Rightarrow> world \<Rightarrow> request \<Rightarrow> response \<times> world" where
  "routes e cfg w req =
     (if protected (route req)
      then (case authenticate e cfg (authorization req) of
              Send res \<Rightarrow> (res, w)
            | Next \<Rightarrow> handler e w req (route req))
      else handler e w req (route req))"

text \<open>
  \<^verbatim>\<open>app.use(express.json())\<close> is registered before every route. The parser either
  passes the request on, with \<^verbatim>\<open>req.body\<close> as it leaves it, or fails: on a body that
  is not JSON with an error of status 400, for another reason (a body over the size limit,
  a character set it does not support) with an error of another status. No route is run
  for a request it fails, and the default error handler of Express answers with the
  status of the parser's error and an HTML page.
\<close>

datatype body_parse =
    Passed "js_object option"
  | Malformed string
  | Failed nat string

record http_request =
  http_authorization :: "string option"
  http_route :: route
  http_body :: body_parse

definition express_json :: "http_request \<Rightarrow> response + request" where
  "express_json r =
     (case http_body r of
        Malformed page \<Rightarrow> Inl \<lparr> status = 400, body = Html page \<rparr>
      | Failed code page \<Rightarrow> Inl \<lparr> status = code, body = Html page \<rparr>
      | Passed b \<Rightarrow>
          Inr \<lparr> authorization = http_authorization r, route = http_route r, req_body = b \<rparr>)"

text \<open>One request through the application.\<close>

definition app :: "env \<Rightarrow> aws_config \<Rightarrow> world \<Rightarrow> http_request \<Rightarrow> response \<times> world" where
  "app e cfg w r =
     (case express_json r of
        Inl res \<Rightarrow> (res, w)
      | Inr req \<Rightarrow> routes e cfg w req)"

section \<open>The condition scan as the specification words it\<close>

text \<open>
  This predicate is written from the specification, to be compared with \<open>ddb_contains\<close>:
  the \<open>Conditions\<close> field, a string or a sequence of strings, contains the given string
  as a substring.
\<close>

fun spec_contains_substring :: "jv option \<Rightarrow> string \<Rightarrow> bool" where
  "spec_contains_substring (Some (JStr s)) t = sublist t s"
| "spec_contains_substring (Some (JArr xs)) t =
     list_ex (\<lambda>x. case x of JStr s \<Rightarrow> sublist t s | _ \<Rightarrow> False) xs"
| "spec_contains_substring v t = False"

section \<open>Concrete inputs\<close>

text \<open>
  A configuration, an environment and a world on which the theorems below are
  instantiated. The environment decodes every token but \<open>garbage\<close>, knows the signing
  key \<open>k1\<close>, verifies every token but \<open>forged\<close>, lets every backend call succeed and
  has pages that hold a whole table.
\<close>

definition example_config :: aws_config where
  "example_config =
     Configs \<lparr> AWS_REGION = Some ''eu-west-1'', AWS_USER_POOL_ID = Some ''pool-1'',
               AWS_POOL_CLIENT_ID = Some ''client-1'' \<rparr>"

definition example_payload :: "string \<Rightarrow> token_payload" where
  "example_payload t =
     \<lparr> client_id = (if t = ''other-client'' then Some ''client-2'' else Some ''client-1''),
       iss = Some ''https://cognito-idp.eu-west-1.amazonaws.com/pool-1'',
       exp = Some 1700000000 \<rparr>"

definition example_env :: env where
  "example_env =
     \<lparr> jwt_decode =
         (\<lambda>t. if t = ''garbage'' then None
              else if t = ''no-kid'' then Some \<lparr> kid = None \<rparr>
              else if t = ''unknown-kid'' then Some \<lparr> kid = Some ''k9'' \<rparr>
              else Some \<lparr> kid = Some ''k1'' \<rparr>),
       getSigningKey =
         (\<lambda>uri k. if k = ''k1'' then Inr ''PEM'' else Inl (Error ''SigningKeyNotFoundError'')),
       cognito_verify =
         (\<lambda>pool client key t.
            if t = ''forged'' then Inl (Error ''Invalid signature'')
            else Inr (Some (example_payload t))),
       getTime = 1699999999400,
       uuidv4 = ''id-2'',
       fault = (\<lambda>c. None),
       scan_page = length,
       query_page = length,
       opensearch_match = (\<lambda>f q idx. idx) \<rparr>"

definition index_down :: env where
  "index_down =
     example_env
       \<lparr> fault :=
           (\<lambda>c. case c of
                   OpenSearchIndex k p \<Rightarrow> Some (Error ''ConnectionError'')
                 | OpenSearchDelete k \<Rightarrow> Some (Error ''ConnectionError'')
                 | _ \<Rightarrow> None) \<rparr>"

definition jane :: patient where
  "jane =
     \<lparr> PatientID = ''id-1'', Name = Some (JStr ''Jane''), Address = Some (JStr ''1 Elm''),
       Conditions = Some (JArr [JStr ''asthma'']), Allergies = Some (JArr []) \<rparr>"

definition example_world :: world where
  "example_world = \<lparr> table = [jane], os_index = [(''id-1'', jane)], calls = [] \<rparr>"

definition example_body :: js_object where
  "example_body =
     map_of [(''PatientID'', JStr ''chosen-by-caller''), (''Name'', JStr ''John''),
             (''Address'', JStr ''2 Oak''), (''Conditions'', JStr ''hay fever, asthma''),
             (''Allergies'', JArr [JStr ''nuts''])]"

definition john :: patient where
  "john =
     \<lparr> PatientID = ''id-2'', Name = Some (JStr ''John''), Address = Some (JStr ''2 Oak''),
       Conditions = Some (JStr ''hay fever, asthma''), Allergies = Some (JArr [JStr ''nuts'']) \<rparr>"

text \<open>The clock 499 milliseconds after the second \<open>exp\<close> of the example payload.\<close>

definition late_env :: env where
  "late_env = example_env \<lparr> getTime := 1700000000499 \<rparr>"

text \<open>A page of two items, and a table of three.\<close>

definition short_page :: env where
  "short_page = example_env \<lparr> scan_page := (\<lambda>tbl. 2) \<rparr>"

definition joan :: patient where
  "joan =
     \<lparr> PatientID = ''id-3'', Name = Some (JStr ''Joan''), Address = Some (JStr ''3 Ash''),
       Conditions = Some (JStr ''asthma''), Allergies = Some (JArr []) \<rparr>"

text \<open>The example world after a PATCH of the id \<open>id-7\<close>, which no record has.\<close>

definition patched_world :: world where
  "patched_world = snd (updatePatient example_env example_world ''id-7'' (Some example_body))"

text \<open>A body with one of the four properties only.\<close>

definition partial_body :: js_object where
  "partial_body = map_of [(''Name'', JStr ''Johnny'')]"

text \<open>A POST with no Authorization header and a body that is not JSON.\<close>

definition malformed_post :: http_request where
  "malformed_post =
     \<lparr> http_authorization = None, http_route = POST_patients,
       http_body = Malformed ''Bad Request'' \<rparr>"

section \<open>Facts about the table and the index\<close>

lemma table_ids_put: "table_ids (ddb_put tbl p) = insert (PatientID p) (table_ids tbl)"
  by (auto simp: table_ids_def ddb_put_def)

lemma table_ids_delete: "table_ids (ddb_delete tbl k) = table_ids tbl - {k}"
  by (auto simp: table_ids_def ddb_delete_def)

lemma ddb_get_None_iff: "ddb_get tbl k = None \<longleftrightarrow> k \<notin> table_ids tbl"
  by (auto simp: ddb_get_def table_ids_def find_None_iff)


lemma find_filter_other:
  "k' \<noteq> k \<Longrightarrow> find (\<lambda>p. PatientID p = k') (filter (\<lambda>p. PatientID p \<noteq> k) tbl) = find (\<lambda>p. PatientID p = k') tbl"
  by (induction tbl) auto

lemma find_filter_same:
  "find (\<lambda>p. PatientID p = k) (filter (\<lambda>p. PatientID p \<noteq> k) tbl) = None"
  by (induction tbl) auto

lemma ddb_get_put: "ddb_get (ddb_put tbl p) k = (if k = PatientID p then Some p else ddb_get tbl k)"
  by (auto simp: ddb_get_def ddb_put_def find_filter_other)

lemma ddb_get_delete: "ddb_get (ddb_delete tbl k) k' = (if k' = k then None else ddb_get tbl k')"
  by (auto simp: ddb_get_def ddb_delete_def find_filter_other find_filter_same)

lemma index_ids_update: "index_ids (AList.update k v idx) = insert k (index_ids idx)"
  by (simp add: index_ids_def dom_update)

lemma index_ids_delete: "index_ids (AList.delete k idx) = index_ids idx - {k}"
  by (auto simp: index_ids_def AList.delete_eq)

lemma find_map_upd:
  "find (\<lambda>p. PatientID p = k') (map (\<lambda>p. if PatientID p = k then f p else p) tbl)
     = (if k' = k then map_option f (find (\<lambda>p. PatientID p = k) tbl) else find (\<lambda>p. PatientID p = k') tbl)"
  if "\<And>p. PatientID (f p) = PatientID p"
  using that by (induction tbl) auto

lemma ddb_get_update:
  "ddb_get (ddb_update tbl k u) k' =
     (if k' = k
      then Some (case ddb_get tbl k of
                   None \<Rightarrow> \<lparr> PatientID = k, Name = upd_Name u, Address = upd_Address u,
                              Conditions = upd_Conditions u, Allergies = upd_Allergies u \<rparr>
                 | Some old \<Rightarrow> old\<lparr> Name := upd_Name u, Address := upd_Address u,
                           Conditions := upd_Conditions u, Allergies := upd_Allergies u \<rparr>)
      else ddb_get tbl k')"
  unfolding ddb_update_def ddb_get_def
  by (cases "find (\<lambda>p. PatientID p = k) tbl") (auto simp: find_map_upd)


lemma table_ids_update: "table_ids (ddb_update tbl k u) = insert k (table_ids tbl)"
proof (rule set_eqI)
  fix k'
  have "k' \<in> table_ids (ddb_update tbl k u) \<longleftrightarrow> ddb_get (ddb_update tbl k u) k' \<noteq> None"
    by (simp add: ddb_get_None_iff)
  also have "\<dots> \<longleftrightarrow> k' = k \<or> ddb_get tbl k' \<noteq> None"
    by (simp add: ddb_get_update)
  also have "\<dots> \<longleftrightarrow> k' \<in> insert k (table_ids tbl)"
    by (simp add: ddb_get_None_iff)
  finally show "k' \<in> table_ids (ddb_update tbl k u) \<longleftrightarrow> k' \<in> insert k (table_ids tbl)" .
qed

text \<open>The three ways a create and a delete can end, with the world each leaves.\<close>

lemma createPatient_cases:
  "createPatient e w p =
     (case fault e (PutCommand p) of
        Some err \<Rightarrow>
          (Inl (Error ''Error occurred while creating the patient''),
           w\<lparr> calls := calls w @ [PutCommand p] \<rparr>)
      | None \<Rightarrow>
          (case fault e (OpenSearchIndex (PatientID p) p) of
             Some err \<Rightarrow>
               (Inl (Error ''Error occurred while creating the patient''),
                w\<lparr> table := ddb_put (table w) p,
                   calls := calls w @ [PutCommand p, OpenSearchIndex (PatientID p) p] \<rparr>)
           | None \<Rightarrow>
               (Inr p,
                w\<lparr> table := ddb_put (table w) p,
                   os_index := AList.update (PatientID p) p (os_index w),
                   calls := calls w @ [PutCommand p, OpenSearchIndex (PatientID p) p] \<rparr>)))"
  by (simp add: createPatient_def indexPatient_def invoke_def Let_def split: option.splits)

lemma deletePatient_cases:
  "deletePatient e w k =
     (case fault e (DeleteCommand k) of
        Some err \<Rightarrow>
          (Inl (Error ''Error occurred while deleting the patient''),
           w\<lparr> calls := calls w @ [DeleteCommand k] \<rparr>)
      | None \<Rightarrow>
          (case fault e (OpenSearchDelete k) of
             Some err \<Rightarrow>
               (Inl (Error ''Error occurred while deleting the patient''),
                w\<lparr> table := ddb_delete (table w) k,
                   calls := calls w @ [DeleteCommand k, OpenSearchDelete k] \<rparr>)
           | None \<Rightarrow>
               (Inr (),
                w\<lparr> table := ddb_delete (table w) k,
                   os_index := AList.delete k (os_index w),
                   calls := calls w @ [DeleteCommand k, OpenSearchDelete k] \<rparr>)))"
  by (simp add: deletePatient_def removePatientFromOpenSearch_def invoke_def Let_def
      split: option.splits)

text \<open>The two ways an update of a defined body can end.\<close>

lemma updatePatient_cases:
  "updatePatient e w k (Some b) =
     (if values_defined (ExpressionAttributeValues b)
         \<and> fault e (UpdateCommand k (ExpressionAttributeValues b)) = None
      then (Inr (),
            w\<lparr> table := ddb_update (table w) k (ExpressionAttributeValues b),
               calls := calls w @ [UpdateCommand k (ExpressionAttributeValues b)] \<rparr>)
      else (Inl (Error ''Error occurred while updating the patient''),
            w\<lparr> calls := calls w @ [UpdateCommand k (ExpressionAttributeValues b)] \<rparr>))"
  by (simp add: updatePatient_def invoke_def Let_def split: option.splits)


section \<open>Token verifier: acceptance and rejection\<close>

text \<open>
  C1, as the code has it. For a request whose bearer token passes signature verification
  (the header holds a non-empty token, the signing key is resolved and is not empty, and
  the verifier library resolves to the token's payload), \<open>authenticate\<close> calls
  \<^verbatim>\<open>next()\<close> if and only if the payload's \<open>client_id\<close> equals the configured client id,
  its \<open>iss\<close> equals the configured issuer URL, and the clock, in milliseconds, is less
  than 500 milliseconds past the second \<open>exp\<close>: the current time rounded to the nearest
  second is at or before \<open>exp\<close>. In every other case the request is rejected with 401.
\<close>

theorem authenticate_accepts_iff:
  assumes "t \<noteq> []"
    and "fetchJWKS e cfg t = Inr publicKey"
    and "publicKey \<noteq> []"
    and "verifyToken e cfg t publicKey = Inr (Some tokenData)"
  shows "(authenticate e cfg (Some t) = Next \<longleftrightarrow>
            client_id tokenData = clientId cfg
            \<and> iss tokenData = Some (awsTokenIssuer cfg)
            \<and> (\<exists>x. exp tokenData = Some x \<and> getTime e < 1000 * x + 500))
         \<and> (authenticate e cfg (Some t) \<noteq> Next \<longrightarrow>
              authenticate e cfg (Some t) = Send \<lparr> status = 401, body = Text ''Access denied'' \<rparr>)"
proof -
  have r: "currentTimeInSeconds (getTime e) \<le> x \<longleftrightarrow> getTime e < 1000 * x + 500" for x
    unfolding currentTimeInSeconds_def by linarith
  from assms show ?thesis
    by (cases "exp tokenData")
      (simp_all add: authenticate_def authenticate_try_def not_expired_def r)
qed

text \<open>
  The token of the example expires at the second 1700000000. It is accepted 400
  milliseconds before that second, rejected 500 milliseconds after it, and a token of
  another client is rejected.
\<close>

theorem authenticate_accepts_iff_witness:
  "authenticate example_env example_config (Some ''good'') = Next
   \<and> authenticate (example_env \<lparr> getTime := 1700000000500 \<rparr>) example_config (Some ''good'')
       = Send \<lparr> status = 401, body = Text ''Access denied'' \<rparr>
   \<and> authenticate example_env example_config (Some ''other-client'')
       = Send \<lparr> status = 401, body = Text ''Access denied'' \<rparr>"
proof -
  let ?late = "example_env \<lparr> getTime := 1700000000500 \<rparr>"
  have f1: "fetchJWKS example_env example_config ''good'' = Inr ''PEM''"
    by (simp add: fetchJWKS_def example_env_def)
  have v1: "verifyToken example_env example_config ''good'' ''PEM''
              = Inr (Some (example_payload ''good''))"
    by (simp add: verifyToken_def example_env_def)
  have f2: "fetchJWKS example_env example_config ''other-client'' = Inr ''PEM''"
    by (simp add: fetchJWKS_def example_env_def)
  have v2: "verifyToken example_env example_config ''other-client'' ''PEM''
              = Inr (Some (example_payload ''other-client''))"
    by (simp add: verifyToken_def example_env_def)
  have f3: "fetchJWKS ?late example_config ''good'' = Inr ''PEM''"
    by (simp add: fetchJWKS_def example_env_def)
  have v3: "verifyToken ?late example_config ''good'' ''PEM''
              = Inr (Some (example_payload ''good''))"
    by (simp add: verifyToken_def example_env_def)
  have a: "authenticate example_env example_config (Some ''good'') = Next"
    using authenticate_accepts_iff [OF _ f1 _ v1]
    by (simp add: example_payload_def example_config_def Configs_def template_def
        example_env_def)
  have b: "authenticate example_env example_config (Some ''other-client'')
             = Send \<lparr> status = 401, body = Text ''Access denied'' \<rparr>"
    using authenticate_accepts_iff [OF _ f2 _ v2]
    by (simp add: example_payload_def example_config_def Configs_def template_def
        example_env_def)
  have c: "authenticate ?late example_config (Some ''good'')
             = Send \<lparr> status = 401, body = Text ''Access denied'' \<rparr>"
    using authenticate_accepts_iff [OF _ f3 _ v3]
    by (simp add: example_payload_def example_config_def Configs_def template_def
        example_env_def)
  from a b c show ?thesis by simp
qed

text \<open>
  The claim C1 as the specification words it fails during the 499 milliseconds after
  the second \<open>exp\<close>: the token of the example expires at the second 1700000000, the clock
  shows 1700000000499 milliseconds, which is after it, and the request is accepted.
\<close>

theorem accepted_after_exp_counterexample:
  "exp (example_payload ''good'') = Some 1700000000
   \<and> getTime late_env = 1700000000499
   \<and> \<not> getTime late_env \<le> 1000 * 1700000000
   \<and> fetchJWKS late_env example_config ''good'' = Inr ''PEM''
   \<and> verifyToken late_env example_config ''good'' ''PEM'' = Inr (Some (example_payload ''good''))
   \<and> authenticate late_env example_config (Some ''good'') = Next"
  by (simp add: late_env_def example_env_def example_payload_def example_config_def Configs_def
      template_def authenticate_def authenticate_try_def fetchJWKS_def verifyToken_def
      not_expired_def currentTimeInSeconds_def)

text \<open>
  C2. Any two requests that \<open>authenticate\<close> rejects receive the same response, whatever
  step rejected each of them: status 401 with the body \<^verbatim>\<open>Access denied\<close>.
\<close>

theorem rejections_identical:
  assumes "authenticate e1 cfg1 token1 = Send res1"
    and "authenticate e2 cfg2 token2 = Send res2"
  shows "res1 = res2 \<and> status res1 = 401 \<and> body res1 = Text ''Access denied''"
  using assms by (auto simp: authenticate_def split: sum.splits)

text \<open>
  One rejection for each step: no header (extract), an undecodable token (decode), an
  unknown key identifier (resolve key), a forged token (verify signature), a token of
  another client (validate claims).
\<close>

theorem rejections_identical_witness:
  "authenticate example_env example_config None
     = Send \<lparr> status = 401, body = Text ''Access denied'' \<rparr>
   \<and> authenticate example_env example_config (Some ''garbage'')
       = authenticate example_env example_config None
   \<and> authenticate example_env example_config (Some ''unknown-kid'')
       = authenticate example_env example_config None
   \<and> authenticate example_env example_config (Some ''forged'')
       = authenticate example_env example_config None
   \<and> authenticate example_env example_config (Some ''other-client'')
       = authenticate example_env example_config None"
proof -
  let ?denied = "\<lparr> status = 401, body = Text ''Access denied'' \<rparr>"
  have a: "authenticate example_env example_config None = Send ?denied"
    by (simp add: authenticate_def authenticate_try_def)
  have b: "\<exists>r. authenticate example_env example_config (Some ''garbage'') = Send r"
    by (simp add: authenticate_def authenticate_try_def fetchJWKS_def example_env_def)
  have c: "\<exists>r. authenticate example_env example_config (Some ''unknown-kid'') = Send r"
    by (simp add: authenticate_def authenticate_try_def fetchJWKS_def example_env_def)
  have d: "\<exists>r. authenticate example_env example_config (Some ''forged'') = Send r"
    by (simp add: authenticate_def authenticate_try_def fetchJWKS_def verifyToken_def
        example_env_def)
  have e: "\<exists>r. authenticate example_env example_config (Some ''other-client'') = Send r"
    by (simp add: authenticate_def authenticate_try_def fetchJWKS_def verifyToken_def
        example_env_def example_payload_def example_config_def Configs_def)
  from a b c d e rejections_identical [OF a] show ?thesis
    by metis
qed

section \<open>The two stores under create and delete\<close>

text \<open>
  C3, as the code has it. A successful create writes the record to the table and indexes
  the same record under the same id, and a successful delete removes the id from the
  table and from the index. So the table and the index, when they hold the same set of
  PatientIDs before a successful create or delete, hold the same set after it; in
  general they hold the same set after it exactly when, before it, they agreed on every
  id other than the one created or deleted.
\<close>

theorem create_delete_same_ids:
  "(createPatient e w p = (Inr r, w') \<longrightarrow>
      table_ids (table w') = insert (PatientID p) (table_ids (table w))
      \<and> index_ids (os_index w') = insert (PatientID p) (index_ids (os_index w))
      \<and> ddb_get (table w') (PatientID p) = Some p
      \<and> map_of (os_index w') (PatientID p) = Some p
      \<and> (table_ids (table w) = index_ids (os_index w)
           \<longrightarrow> table_ids (table w') = index_ids (os_index w'))
      \<and> (table_ids (table w') = index_ids (os_index w')
           \<longleftrightarrow> table_ids (table w) - {PatientID p} = index_ids (os_index w) - {PatientID p}))
   \<and> (deletePatient e w k = (Inr u, w'') \<longrightarrow>
      table_ids (table w'') = table_ids (table w) - {k}
      \<and> index_ids (os_index w'') = index_ids (os_index w) - {k}
      \<and> (table_ids (table w) = index_ids (os_index w)
           \<longrightarrow> table_ids (table w'') = index_ids (os_index w''))
      \<and> (table_ids (table w'') = index_ids (os_index w'')
           \<longleftrightarrow> table_ids (table w) - {k} = index_ids (os_index w) - {k}))"
proof (intro conjI impI)
  assume c: "createPatient e w p = (Inr r, w')"
  then have w': "w' = w\<lparr> table := ddb_put (table w) p,
                         os_index := AList.update (PatientID p) p (os_index w),
                         calls := calls w @ [PutCommand p, OpenSearchIndex (PatientID p) p] \<rparr>"
    by (auto simp: createPatient_cases split: option.splits)
  show t: "table_ids (table w') = insert (PatientID p) (table_ids (table w))"
    by (simp add: w' table_ids_put)
  show i: "index_ids (os_index w') = insert (PatientID p) (index_ids (os_index w))"
    by (simp add: w' index_ids_update)
  show "ddb_get (table w') (PatientID p) = Some p"
    by (simp add: w' ddb_get_put)
  show "map_of (os_index w') (PatientID p) = Some p"
    by (simp add: w' update_conv')
  show "table_ids (table w') = index_ids (os_index w')"
    if "table_ids (table w) = index_ids (os_index w)"
    using that t i by simp
  show "table_ids (table w') = index_ids (os_index w')
          \<longleftrightarrow> table_ids (table w) - {PatientID p} = index_ids (os_index w) - {PatientID p}"
    unfolding t i by blast
next
  assume d: "deletePatient e w k = (Inr u, w'')"
  then have w'': "w'' = w\<lparr> table := ddb_delete (table w) k,
                           os_index := AList.delete k (os_index w),
                           calls := calls w @ [DeleteCommand k, OpenSearchDelete k] \<rparr>"
    by (auto simp: deletePatient_cases split: option.splits)
  show t: "table_ids (table w'') = table_ids (table w) - {k}"
    by (simp add: w'' table_ids_delete)
  show i: "index_ids (os_index w'') = index_ids (os_index w) - {k}"
    by (simp add: w'' index_ids_delete)
  show "table_ids (table w'') = index_ids (os_index w'')"
    if "table_ids (table w) = index_ids (os_index w)"
    using that t i by simp
  show "table_ids (table w'') = index_ids (os_index w'')
          \<longleftrightarrow> table_ids (table w) - {k} = index_ids (os_index w) - {k}"
    unfolding t i by blast
qed

theorem create_delete_same_ids_witness:
  "table_ids (table example_world) = index_ids (os_index example_world)
   \<and> (\<exists>w'. createPatient example_env example_world john = (Inr john, w')
        \<and> table_ids (table w') = {''id-1'', ''id-2''}
        \<and> index_ids (os_index w') = {''id-1'', ''id-2''})
   \<and> (\<exists>w''. deletePatient example_env example_world ''id-1'' = (Inr (), w'')
        \<and> table_ids (table w'') = {}
        \<and> index_ids (os_index w'') = {})"
proof -
  obtain w' where c: "createPatient example_env example_world john = (Inr john, w')"
    by (simp add: createPatient_cases example_env_def)
  obtain w'' where d: "deletePatient example_env example_world ''id-1'' = (Inr (), w'')"
    by (simp add: deletePatient_cases example_env_def)
  have s: "table_ids (table example_world) = index_ids (os_index example_world)"
    by (simp add: example_world_def table_ids_def index_ids_def jane_def)
  from create_delete_same_ids [of example_env example_world john john w' "''id-1''" "()" w''] c d s
  show ?thesis
    by (auto simp: example_world_def table_ids_def index_ids_def jane_def john_def)
qed

text \<open>
  The claim C3 as the specification words it fails after successful operations only.
  The example world holds the id \<open>id-1\<close> in the table and in the index. A PATCH of the
  absent id \<open>id-7\<close> succeeds and adds it to the table alone; the create that follows
  succeeds, and so does a delete of \<open>id-1\<close>, and after either the table holds \<open>id-7\<close>
  and the index does not.
\<close>

theorem same_ids_counterexample:
  "table_ids (table example_world) = index_ids (os_index example_world)
   \<and> fst (updatePatient example_env example_world ''id-7'' (Some example_body)) = Inr ()
   \<and> fst (createPatient example_env patched_world john) = Inr john
   \<and> table_ids (table (snd (createPatient example_env patched_world john)))
       = {''id-2'', ''id-7'', ''id-1''}
   \<and> index_ids (os_index (snd (createPatient example_env patched_world john)))
       = {''id-2'', ''id-1''}
   \<and> fst (deletePatient example_env patched_world ''id-1'') = Inr ()
   \<and> table_ids (table (snd (deletePatient example_env patched_world ''id-1''))) = {''id-7''}
   \<and> index_ids (os_index (snd (deletePatient example_env patched_world ''id-1''))) = {}"
proof -
  have f: "fault example_env c = None" for c
    by (simp add: example_env_def)
  have v: "values_defined (ExpressionAttributeValues example_body)"
    by (simp add: values_defined_def ExpressionAttributeValues_def example_body_def)
  have t0: "table_ids (table example_world) = {''id-1''}"
    by (simp add: example_world_def table_ids_def jane_def)
  have i0: "index_ids (os_index example_world) = {''id-1''}"
    by (simp add: example_world_def index_ids_def)
  have p: "table_ids (table patched_world) = {''id-7'', ''id-1''}"
    "index_ids (os_index patched_world) = {''id-1''}"
    by (simp_all add: patched_world_def updatePatient_cases f v table_ids_update t0 i0)
  have j: "PatientID john = ''id-2''"
    by (simp add: john_def)
  have u: "fst (updatePatient example_env example_world ''id-7'' (Some example_body)) = Inr ()"
    by (simp add: updatePatient_cases f v)
  have c: "fst (createPatient example_env patched_world john) = Inr john"
    "table_ids (table (snd (createPatient example_env patched_world john)))
       = {''id-2'', ''id-7'', ''id-1''}"
    "index_ids (os_index (snd (createPatient example_env patched_world john)))
       = {''id-2'', ''id-1''}"
    by (simp_all add: createPatient_cases f table_ids_put index_ids_update p j)
  have d: "fst (deletePatient example_env patched_world ''id-1'') = Inr ()"
    "table_ids (table (snd (deletePatient example_env patched_world ''id-1''))) = {''id-7''}"
    "index_ids (os_index (snd (deletePatient example_env patched_world ''id-1''))) = {}"
    by (auto simp add: deletePatient_cases f table_ids_delete index_ids_delete p)
  from t0 i0 u c d show ?thesis
    by simp
qed

text \<open>
  C4. When the table write of a create succeeds and the indexing that follows fails, the
  create reports an error and the record written stays in the table, the index being as
  it was; when the table delete of a delete succeeds and the index removal fails, the
  delete reports an error and the record stays deleted from the table, the index being
  as it was.
\<close>

theorem no_rollback:
  "(fault e (PutCommand p) = None \<and> fault e (OpenSearchIndex (PatientID p) p) = Some err \<longrightarrow>
      (\<exists>w'. createPatient e w p = (Inl (Error ''Error occurred while creating the patient''), w')
         \<and> table w' = ddb_put (table w) p
         \<and> ddb_get (table w') (PatientID p) = Some p
         \<and> os_index w' = os_index w))
   \<and> (fault e (DeleteCommand k) = None \<and> fault e (OpenSearchDelete k) = Some err' \<longrightarrow>
      (\<exists>w'. deletePatient e w k = (Inl (Error ''Error occurred while deleting the patient''), w')
         \<and> table w' = ddb_delete (table w) k
         \<and> ddb_get (table w') k = None
         \<and> os_index w' = os_index w))"
  by (simp add: createPatient_cases deletePatient_cases ddb_get_put ddb_get_delete)

theorem no_rollback_witness:
  "(\<exists>w'. createPatient index_down example_world john
            = (Inl (Error ''Error occurred while creating the patient''), w')
         \<and> ddb_get (table w') ''id-2'' = Some john
         \<and> map_of (os_index w') ''id-2'' = None)
   \<and> (\<exists>w'. deletePatient index_down example_world ''id-1''
            = (Inl (Error ''Error occurred while deleting the patient''), w')
         \<and> ddb_get (table w') ''id-1'' = None
         \<and> map_of (os_index w') ''id-1'' = Some jane)"
  using no_rollback [of index_down john "Error ''ConnectionError''" example_world "''id-1''"
      "Error ''ConnectionError''"]
  by (auto simp: index_down_def example_env_def john_def example_world_def)

section \<open>Update\<close>



text \<open>
  C10, as the code has it. For an id that is absent from the table, an update succeeds
  exactly when its input defines the four values and the store executes the command. It
  then does not report not-found: it adds a record with that id and the four values of
  the input, the id is in the table afterwards, and the PATCH route answers 200 with
  \<^verbatim>\<open>UPDATED_SUCCESSFULLY\<close>. An update that does not succeed reports the error of every
  failed update, leaves the table as it was, and the PATCH route answers 500.
\<close>

theorem update_upserts:
  assumes "k \<notin> table_ids (table w)"
  shows "(fst (updatePatient e w k (Some b)) = Inr ()
            \<longleftrightarrow> values_defined (ExpressionAttributeValues b)
                \<and> fault e (UpdateCommand k (ExpressionAttributeValues b)) = None)
     \<and> (values_defined (ExpressionAttributeValues b)
          \<and> fault e (UpdateCommand k (ExpressionAttributeValues b)) = None \<longrightarrow>
          (\<exists>w'. updatePatient e w k (Some b) = (Inr (), w')
             \<and> ddb_get (table w') k =
                 Some \<lparr> PatientID = k, Name = b ''Name'', Address = b ''Address'',
                        Conditions = b ''Conditions'', Allergies = b ''Allergies'' \<rparr>
             \<and> table_ids (table w') = insert k (table_ids (table w))
             \<and> (\<forall>req. req_body req = Some b \<longrightarrow>
                   patch_patients_id e w k req =
                     (json 200 ''UPDATED_SUCCESSFULLY'' DUpdateCommandOutput
                        ''Patient updated successfully'', w'))))
     \<and> (\<not> (values_defined (ExpressionAttributeValues b)
            \<and> fault e (UpdateCommand k (ExpressionAttributeValues b)) = None) \<longrightarrow>
          (\<exists>w'. updatePatient e w k (Some b)
                   = (Inl (Error ''Error occurred while updating the patient''), w')
             \<and> table w' = table w
             \<and> k \<notin> table_ids (table w')
             \<and> (\<forall>req. req_body req = Some b \<longrightarrow>
                   patch_patients_id e w k req = (something_went_wrong, w'))))"
proof -
  from assms have "ddb_get (table w) k = None"
    by (simp add: ddb_get_None_iff)
  with assms show ?thesis
    by (simp add: updatePatient_cases ddb_get_update table_ids_update patch_patients_id_def
        ExpressionAttributeValues_def)
qed

theorem update_upserts_witness:
  "''id-7'' \<notin> table_ids (table example_world)
   \<and> (\<exists>w'. updatePatient example_env example_world ''id-7'' (Some example_body) = (Inr (), w')
        \<and> ddb_get (table w') ''id-7'' = Some (john\<lparr> PatientID := ''id-7'' \<rparr>)
        \<and> table_ids (table w') = {''id-7'', ''id-1''}
        \<and> index_ids (os_index w') = {''id-1''})"
proof -
  have a: "''id-7'' \<notin> table_ids (table example_world)"
    by (simp add: example_world_def table_ids_def jane_def)
  have b: "values_defined (ExpressionAttributeValues example_body)"
    by (simp add: values_defined_def ExpressionAttributeValues_def example_body_def)
  have c: "fault example_env (UpdateCommand ''id-7'' (ExpressionAttributeValues example_body)) = None"
    by (simp add: example_env_def)
  have j: "\<lparr> PatientID = ''id-7'', Name = example_body ''Name'',
             Address = example_body ''Address'', Conditions = example_body ''Conditions'',
             Allergies = example_body ''Allergies'' \<rparr> = john\<lparr> PatientID := ''id-7'' \<rparr>"
    by (simp add: example_body_def john_def)
  have t: "table_ids (table example_world) = {''id-1''}"
    by (simp add: example_world_def table_ids_def jane_def)
  from update_upserts [OF a, of example_env example_body, THEN conjunct2, THEN conjunct1,
      rule_format, OF conjI [OF b c]]
  obtain w' where
    u: "updatePatient example_env example_world ''id-7'' (Some example_body) = (Inr (), w')"
    and g: "ddb_get (table w') ''id-7'' = Some (john\<lparr> PatientID := ''id-7'' \<rparr>)"
    and d: "table_ids (table w') = {''id-7'', ''id-1''}"
    unfolding j t by blast
  from u have "os_index w' = os_index example_world"
    by (auto simp: updatePatient_cases b c)
  then have i: "index_ids (os_index w') = {''id-1''}"
    by (simp add: example_world_def index_ids_def)
  from a u g d i show ?thesis
    by blast
qed

text \<open>
  The claim C10 as it is worded fails on an input that leaves one of the four values
  out: no call on the store fails in the example environment, the id \<open>id-7\<close> is absent,
  and the update of \<open>id-7\<close> with a body that has a Name only reports an error, the PATCH
  route answers 500, and the table holds no record under \<open>id-7\<close> afterwards.
\<close>

theorem update_absent_fails_counterexample:
  "''id-7'' \<notin> table_ids (table example_world)
   \<and> fault example_env (UpdateCommand ''id-7'' (ExpressionAttributeValues partial_body)) = None
   \<and> fst (updatePatient example_env example_world ''id-7'' (Some partial_body))
       = Inl (Error ''Error occurred while updating the patient'')
   \<and> fst (patch_patients_id example_env example_world ''id-7''
            \<lparr> authorization = Some ''good'', route = PATCH_patients_id ''id-7'',
              req_body = Some partial_body \<rparr>)
       = \<lparr> status = 500, body = Text ''Something went wrong!'' \<rparr>
   \<and> ddb_get (table (snd (updatePatient example_env example_world ''id-7'' (Some partial_body))))
        ''id-7'' = None"
proof -
  have v: "\<not> values_defined (ExpressionAttributeValues partial_body)"
    by (simp add: values_defined_def ExpressionAttributeValues_def partial_body_def)
  have f: "fault example_env c = None" for c
    by (simp add: example_env_def)
  show ?thesis
    by (simp add: updatePatient_cases v f patch_patients_id_def something_went_wrong_def)
      (simp add: example_world_def table_ids_def ddb_get_def jane_def)
qed

section \<open>Scan by condition\<close>

lemma ddb_contains_iff:
  "ddb_contains v t \<longleftrightarrow>
     (\<exists>s. v = Some (JStr s) \<and> sublist t s) \<or> (\<exists>xs. v = Some (JArr xs) \<and> JStr t \<in> set xs)"
  by (cases "(v, t)" rule: ddb_contains.cases) auto

lemma ddb_contains_imp_spec: "ddb_contains v t \<Longrightarrow> spec_contains_substring v t"
  by (cases "(v, t)" rule: ddb_contains.cases) (auto simp: list_ex_iff intro!: bexI)

text \<open>
  C6, as the code has it. For every input string, when the scan command succeeds, the
  condition scan sends one scan request and returns exactly the records, of the page of
  the table that the request reads, whose Conditions attribute is a string that contains
  the input as a substring, or is a list that has the input string as an element. When
  the table fits the page, this is a full-table scan: the records returned are exactly
  those of the table with such a Conditions attribute. Every record returned has the
  input as a substring of its Conditions string or of one of its Conditions elements.
\<close>

theorem scan_by_condition:
  assumes "fault e (ScanCommand (Some t)) = None"
  shows "\<exists>items.
           findPatientsByCondition e w (Some t)
             = (Inr items, w\<lparr> calls := calls w @ [ScanCommand (Some t)] \<rparr>)
           \<and> items =
               filter (\<lambda>p. (\<exists>s. Conditions p = Some (JStr s) \<and> sublist t s)
                          \<or> (\<exists>xs. Conditions p = Some (JArr xs) \<and> JStr t \<in> set xs))
                 (take (scan_page e (table w)) (table w))
           \<and> (length (table w) \<le> scan_page e (table w) \<longrightarrow>
                items =
                  filter (\<lambda>p. (\<exists>s. Conditions p = Some (JStr s) \<and> sublist t s)
                             \<or> (\<exists>xs. Conditions p = Some (JArr xs) \<and> JStr t \<in> set xs))
                    (table w))
           \<and> (\<forall>p \<in> set items. spec_contains_substring (Conditions p) t)"
  using assms
  by (auto simp: findPatientsByCondition_def ddb_scan_def invoke_def Let_def ddb_contains_iff
      intro: ddb_contains_imp_spec [unfolded ddb_contains_iff])

theorem scan_by_condition_witness:
  "length (table (example_world \<lparr> table := [jane, john] \<rparr>))
     \<le> scan_page example_env (table (example_world \<lparr> table := [jane, john] \<rparr>))
   \<and> fst (findPatientsByCondition example_env
          (example_world \<lparr> table := [jane, john] \<rparr>) (Some ''asthma'')) = Inr [jane, john]
   \<and> fst (findPatientsByCondition example_env
          (example_world \<lparr> table := [jane, john] \<rparr>) (Some ''fever'')) = Inr [john]
   \<and> spec_contains_substring (Conditions jane) ''asthma''
   \<and> spec_contains_substring (Conditions john) ''asthma''"
proof -
  let ?w = "example_world \<lparr> table := [jane, john] \<rparr>"
  have f: "fault example_env c = None" for c
    by (simp add: example_env_def)
  have l: "length (table ?w) \<le> scan_page example_env (table ?w)"
    by (simp add: example_env_def)
  have s: "sublist ''asthma'' ''hay fever, asthma''" "sublist ''fever'' ''hay fever, asthma''"
    by code_simp+
  from scan_by_condition [where e = example_env and t = "''asthma''" and w = ?w, OF f] l s(1)
  have a: "fst (findPatientsByCondition example_env ?w (Some ''asthma'')) = Inr [jane, john]"
    by (auto simp: jane_def john_def)
  from scan_by_condition [where e = example_env and t = "''fever''" and w = ?w, OF f] l s(2)
  have b: "fst (findPatientsByCondition example_env ?w (Some ''fever'')) = Inr [john]"
    by (auto simp: jane_def john_def)
  from scan_by_condition [where e = example_env and t = "''asthma''" and w = ?w, OF f]
  obtain items where i: "fst (findPatientsByCondition example_env ?w (Some ''asthma'')) = Inr items"
    and sp: "\<forall>p \<in> set items. spec_contains_substring (Conditions p) ''asthma''"
    by force
  from i a have "items = [jane, john]"
    by simp
  with sp have c: "spec_contains_substring (Conditions jane) ''asthma''
             \<and> spec_contains_substring (Conditions john) ''asthma''"
    by simp
  from l a b c show ?thesis
    by blast
qed

text \<open>
  Beyond the page: with a page of two items and a table of three, the third record is
  not returned although its Conditions is the very string scanned for.
\<close>

lemma scan_reads_one_page:
  "fst (findPatientsByCondition short_page
          (example_world \<lparr> table := [jane, john, joan] \<rparr>) (Some ''asthma'')) = Inr [jane, john]
   \<and> Conditions joan = Some (JStr ''asthma'')"
proof -
  have s: "sublist ''asthma'' ''hay fever, asthma''"
    by code_simp
  then show ?thesis
    by (simp add: findPatientsByCondition_def invoke_def Let_def short_page_def example_env_def
        ddb_scan_def jane_def john_def joan_def)
qed

text \<open>
  The claim C6 as the specification words it fails on a list of conditions: the table of
  the example world fits the page, its record with the conditions \<open>[asthma]\<close> contains
  \<open>asth\<close> as a substring, and the scan for \<open>asth\<close> does not return it.
\<close>

theorem scan_not_substring_counterexample:
  "length (table example_world) \<le> scan_page example_env (table example_world)
   \<and> jane \<in> set (table example_world)
   \<and> spec_contains_substring (Conditions jane) ''asth''
   \<and> fst (findPatientsByCondition example_env example_world (Some ''asth'')) = Inr []"
proof -
  have s: "sublist ''asth'' ''asthma''"
    by code_simp
  then show ?thesis
    by (simp add: example_world_def jane_def findPatientsByCondition_def invoke_def Let_def
        example_env_def ddb_scan_def)
qed

section \<open>Routes\<close>

lemma authenticate_cases:
  "authenticate e cfg token = Next
   \<or> authenticate e cfg token = Send \<lparr> status = 401, body = Text ''Access denied'' \<rparr>"
  by (simp add: authenticate_def split: sum.splits)

lemma authenticate_malformed:
  assumes "token = None \<or> token = Some []
     \<or> (\<exists>t. token = Some t
           \<and> (jwt_decode e t = None
               \<or> (\<exists>h. jwt_decode e t = Some h \<and> (kid h = None \<or> kid h = Some []))))"
  shows "authenticate e cfg token = Send \<lparr> status = 401, body = Text ''Access denied'' \<rparr>"
  using assms
  by (auto simp: authenticate_def authenticate_try_def fetchJWKS_def)

lemma routes_rejects:
  assumes "protected (route req)"
    and "authenticate e cfg (authorization req) \<noteq> Next"
  shows "routes e cfg w req = (\<lparr> status = 401, body = Text ''Access denied'' \<rparr>, w)"
  using assms authenticate_cases [of e cfg "authorization req"]
  by (auto simp: routes_def)

text \<open>
  C7, as the code has it. On every protected route, a request whose Authorization header
  is missing or empty, or whose token cannot be decoded or has no key identifier, leaves
  the world as it was: no call on the table or on the index is made. Its response is
  401 with \<^verbatim>\<open>Access denied\<close> when the JSON body parser, which runs before the token
  verifier, passes the request on, and the error response of the parser when it does
  not: 400 for a body that is not JSON. More generally a request that \<open>authenticate\<close> does not accept is treated so, and
  a request after which the list of backend calls has grown was passed on by the parser
  and accepted by \<open>authenticate\<close>.
\<close>

theorem no_backend_call_before_accept:
  assumes "protected (http_route r)"
  shows "(http_authorization r = None \<or> http_authorization r = Some []
           \<or> (\<exists>t. http_authorization r = Some t
                 \<and> (jwt_decode e t = None
                     \<or> (\<exists>h. jwt_decode e t = Some h \<and> (kid h = None \<or> kid h = Some []))))
          \<longrightarrow> snd (app e cfg w r) = w
              \<and> (\<forall>b. http_body r = Passed b \<longrightarrow>
                    fst (app e cfg w r) = \<lparr> status = 401, body = Text ''Access denied'' \<rparr>)
              \<and> (\<forall>page. http_body r = Malformed page \<longrightarrow>
                    fst (app e cfg w r) = \<lparr> status = 400, body = Html page \<rparr>)
              \<and> (\<forall>code page. http_body r = Failed code page \<longrightarrow>
                    fst (app e cfg w r) = \<lparr> status = code, body = Html page \<rparr>))
     \<and> (authenticate e cfg (http_authorization r) \<noteq> Next
          \<longrightarrow> snd (app e cfg w r) = w
              \<and> (\<forall>b. http_body r = Passed b \<longrightarrow>
                    fst (app e cfg w r) = \<lparr> status = 401, body = Text ''Access denied'' \<rparr>))
     \<and> (calls (snd (app e cfg w r)) \<noteq> calls w
          \<longrightarrow> (\<exists>b. http_body r = Passed b) \<and> authenticate e cfg (http_authorization r) = Next)"
proof -
  have failed: "app e cfg w r = (\<lparr> status = code, body = Html page \<rparr>, w)"
    if "http_body r = Failed code page" for code page
    using that by (simp add: app_def express_json_def)
  have malformed: "app e cfg w r = (\<lparr> status = 400, body = Html page \<rparr>, w)"
    if "http_body r = Malformed page" for page
    using that by (simp add: app_def express_json_def)
  have rej: "app e cfg w r = (\<lparr> status = 401, body = Text ''Access denied'' \<rparr>, w)"
    if "authenticate e cfg (http_authorization r) \<noteq> Next" "http_body r = Passed b" for b
    using that assms by (simp add: app_def express_json_def routes_rejects)
  have unchanged: "snd (app e cfg w r) = w"
    if "authenticate e cfg (http_authorization r) \<noteq> Next"
    using that failed malformed rej by (cases "http_body r") simp_all
  have mal: "authenticate e cfg (http_authorization r) \<noteq> Next"
    if "http_authorization r = None \<or> http_authorization r = Some []
           \<or> (\<exists>t. http_authorization r = Some t
                 \<and> (jwt_decode e t = None
                     \<or> (\<exists>h. jwt_decode e t = Some h \<and> (kid h = None \<or> kid h = Some []))))"
    using authenticate_malformed [OF that, of cfg] by simp
  have grown: "(\<exists>b. http_body r = Passed b) \<and> authenticate e cfg (http_authorization r) = Next"
    if "calls (snd (app e cfg w r)) \<noteq> calls w"
  proof (cases "http_body r")
    case (Passed b)
    with that unchanged show ?thesis
      by (cases "authenticate e cfg (http_authorization r) = Next") simp_all
  next
    case (Malformed page)
    with that malformed show ?thesis by simp
  next
    case (Failed code page)
    with that failed show ?thesis by simp
  qed
  show ?thesis
  proof (intro conjI impI allI)
    assume m: "http_authorization r = None \<or> http_authorization r = Some []
           \<or> (\<exists>t. http_authorization r = Some t
                 \<and> (jwt_decode e t = None
                     \<or> (\<exists>h. jwt_decode e t = Some h \<and> (kid h = None \<or> kid h = Some []))))"
    show "snd (app e cfg w r) = w"
      by (rule unchanged [OF mal [OF m]])
    show "fst (app e cfg w r) = \<lparr> status = 401, body = Text ''Access denied'' \<rparr>"
      if "http_body r = Passed b" for b
      by (simp add: rej [OF mal [OF m] that])
    show "fst (app e cfg w r) = \<lparr> status = 400, body = Html page \<rparr>"
      if "http_body r = Malformed page" for page
      by (simp add: malformed [OF that])
    show "fst (app e cfg w r) = \<lparr> status = code, body = Html page \<rparr>"
      if "http_body r = Failed code page" for code page
      by (simp add: failed [OF that])
  next
    assume n: "authenticate e cfg (http_authorization r) \<noteq> Next"
    show "snd (app e cfg w r) = w"
      by (rule unchanged [OF n])
    show "fst (app e cfg w r) = \<lparr> status = 401, body = Text ''Access denied'' \<rparr>"
      if "http_body r = Passed b" for b
      by (simp add: rej [OF n that])
  next
    assume "calls (snd (app e cfg w r)) \<noteq> calls w"
    from grown [OF this] show "\<exists>b. http_body r = Passed b"
      and "authenticate e cfg (http_authorization r) = Next"
      by simp_all
  qed
qed

theorem no_backend_call_before_accept_witness:
  "app example_env example_config example_world
     \<lparr> http_authorization = None, http_route = POST_patients,
       http_body = Passed (Some example_body) \<rparr>
     = (\<lparr> status = 401, body = Text ''Access denied'' \<rparr>, example_world)
   \<and> app example_env example_config example_world
     \<lparr> http_authorization = Some ''garbage'', http_route = DELETE_patients_id ''id-1'',
       http_body = Passed None \<rparr>
     = (\<lparr> status = 401, body = Text ''Access denied'' \<rparr>, example_world)
   \<and> calls (snd (app example_env example_config example_world
     \<lparr> http_authorization = Some ''good'', http_route = DELETE_patients_id ''id-1'',
       http_body = Passed None \<rparr>))
     = [DeleteCommand ''id-1'', OpenSearchDelete ''id-1'']"
proof -
  let ?r1 = "\<lparr> http_authorization = None, http_route = POST_patients,
                http_body = Passed (Some example_body) \<rparr>"
  let ?r2 = "\<lparr> http_authorization = Some ''garbage'', http_route = DELETE_patients_id ''id-1'',
                http_body = Passed None \<rparr>"
  have p1: "protected (http_route ?r1)"
    by (simp add: protected_def)
  have p2: "protected (http_route ?r2)"
    by (simp add: protected_def)
  have d: "jwt_decode example_env ''garbage'' = None"
    by (simp add: example_env_def)
  have a: "authenticate example_env example_config (Some ''good'') = Next"
    by (simp add: authenticate_def authenticate_try_def fetchJWKS_def verifyToken_def
        example_env_def example_payload_def example_config_def Configs_def template_def
        not_expired_def currentTimeInSeconds_def)
  have c: "calls (snd (app example_env example_config example_world
     \<lparr> http_authorization = Some ''good'', http_route = DELETE_patients_id ''id-1'',
       http_body = Passed None \<rparr>))
     = [DeleteCommand ''id-1'', OpenSearchDelete ''id-1'']"
  proof -
    have "app example_env example_config example_world
            \<lparr> http_authorization = Some ''good'', http_route = DELETE_patients_id ''id-1'',
              http_body = Passed None \<rparr>
          = delete_patients_id example_env example_world ''id-1''"
      by (simp add: app_def express_json_def routes_def protected_def a)
    then show ?thesis
      by (simp add: delete_patients_id_def deletePatient_cases example_env_def example_world_def)
  qed
  have m1: "http_authorization ?r1 = None \<or> http_authorization ?r1 = Some []
           \<or> (\<exists>t. http_authorization ?r1 = Some t
                 \<and> (jwt_decode example_env t = None
                     \<or> (\<exists>h. jwt_decode example_env t = Some h
                           \<and> (kid h = None \<or> kid h = Some []))))"
    by simp
  have m2: "http_authorization ?r2 = None \<or> http_authorization ?r2 = Some []
           \<or> (\<exists>t. http_authorization ?r2 = Some t
                 \<and> (jwt_decode example_env t = None
                     \<or> (\<exists>h. jwt_decode example_env t = Some h
                           \<and> (kid h = None \<or> kid h = Some []))))"
    using d by simp
  note t1 = no_backend_call_before_accept [OF p1, of example_env example_config example_world,
      THEN conjunct1, rule_format, OF m1]
  note t2 = no_backend_call_before_accept [OF p2, of example_env example_config example_world,
      THEN conjunct1, rule_format, OF m2]
  have b1: "http_body ?r1 = Passed (Some example_body)"
    by simp
  have b2: "http_body ?r2 = Passed None"
    by simp
  from t1 [THEN conjunct1] t1 [THEN conjunct2, THEN conjunct1, rule_format, OF b1]
  have r1: "app example_env example_config example_world ?r1
              = (\<lparr> status = 401, body = Text ''Access denied'' \<rparr>, example_world)"
    by (simp only: prod_eq_iff fst_conv snd_conv simp_thms)
  from t2 [THEN conjunct1] t2 [THEN conjunct2, THEN conjunct1, rule_format, OF b2]
  have r2: "app example_env example_config example_world ?r2
              = (\<lparr> status = 401, body = Text ''Access denied'' \<rparr>, example_world)"
    by (simp only: prod_eq_iff fst_conv snd_conv simp_thms)
  from r1 r2 c show ?thesis
    by simp
qed

text \<open>
  The claim C7 as the specification words it fails on the response: a POST on the
  protected route \<^verbatim>\<open>/patients\<close> with no Authorization header and a body that is not
  JSON is answered 400 by the body parser, not 401. No backend call is made.
\<close>

theorem malformed_body_is_400_counterexample:
  "protected (http_route malformed_post)
   \<and> http_authorization malformed_post = None
   \<and> status (fst (app example_env example_config example_world malformed_post)) = 400
   \<and> snd (app example_env example_config example_world malformed_post) = example_world"
  by (simp add: malformed_post_def protected_def app_def express_json_def)

lemma getPatient_ok:
  "fault e (GetCommand k) = None \<Longrightarrow>
     getPatient e w k = (Inr (ddb_get (table w) k), w\<lparr> calls := calls w @ [GetCommand k] \<rparr>)"
  by (simp add: getPatient_def invoke_def Let_def)

text \<open>
  C8. An authenticated GET of \<^verbatim>\<open>/patients/:id\<close> whose store read succeeds answers 200
  whether or not the id is in the table; for an id that is not, the answer is the success
  envelope \<^verbatim>\<open>FETCHED_SUCCESSFULLY\<close> with no data. This is the answer of the application
  to every request that the body parser passes on as such a request.
\<close>

theorem get_missing_is_200:
  assumes "route req = GET_patients_id k"
    and "authenticate e cfg (authorization req) = Next"
    and "fault e (GetCommand k) = None"
  shows "status (fst (routes e cfg w req)) = 200
     \<and> (k \<notin> table_ids (table w) \<longrightarrow>
          fst (routes e cfg w req) =
            \<lparr> status = 200,
              body = Json \<lparr> statusCode = ''FETCHED_SUCCESSFULLY'', data = DItem None,
                            description = ''Patient fetched successfully'' \<rparr> \<rparr>)
     \<and> (\<forall>p. ddb_get (table w) k = Some p \<longrightarrow>
          fst (routes e cfg w req) =
            \<lparr> status = 200,
              body = Json \<lparr> statusCode = ''FETCHED_SUCCESSFULLY'', data = DItem (Some p),
                            description = ''Patient fetched successfully'' \<rparr> \<rparr>)
     \<and> (\<forall>r. express_json r = Inr req \<longrightarrow> app e cfg w r = routes e cfg w req)"
  using assms
  by (simp add: routes_def app_def protected_def get_patients_id_def getPatient_ok json_def
      ddb_get_None_iff [symmetric])

theorem get_missing_is_200_witness:
  "fst (routes example_env example_config example_world
          \<lparr> authorization = Some ''good'', route = GET_patients_id ''id-9'', req_body = None \<rparr>)
     = \<lparr> status = 200,
         body = Json \<lparr> statusCode = ''FETCHED_SUCCESSFULLY'', data = DItem None,
                       description = ''Patient fetched successfully'' \<rparr> \<rparr>"
proof -
  let ?req = "\<lparr> authorization = Some ''good'', route = GET_patients_id ''id-9'', req_body = None \<rparr>"
  have r: "route ?req = GET_patients_id ''id-9''"
    by simp
  have a: "authenticate example_env example_config (authorization ?req) = Next"
    by (simp add: authenticate_def authenticate_try_def fetchJWKS_def verifyToken_def
        example_env_def example_payload_def example_config_def Configs_def template_def
        not_expired_def currentTimeInSeconds_def)
  have f: "fault example_env (GetCommand ''id-9'') = None"
    by (simp add: example_env_def)
  have n: "''id-9'' \<notin> table_ids (table example_world)"
    by (simp add: example_world_def table_ids_def jane_def)
  from get_missing_is_200 [OF r a f, of example_world] n show ?thesis
    by simp
qed

text \<open>
  C9. The record a successful create request stores and indexes has for PatientID the
  identifier \<^verbatim>\<open>uuidv4()\<close> returned for the request, and for Name, Address, Conditions and
  Allergies the properties of the body; it is stored and indexed under that identifier
  and no other key changes. Two bodies that agree on these four properties give the same
  result: a PatientID in the body, like any other property, is ignored.
\<close>

theorem create_mints_id:
  assumes "req_body req = Some b"
  shows "(\<forall>res w'. post_patients e w req = (res, w') \<and> status res = 201 \<longrightarrow>
            (let created = \<lparr> PatientID = uuidv4 e, Name = b ''Name'', Address = b ''Address'',
                              Conditions = b ''Conditions'', Allergies = b ''Allergies'' \<rparr> in
             ddb_get (table w') (uuidv4 e) = Some created
             \<and> map_of (os_index w') (uuidv4 e) = Some created
             \<and> body res = Json \<lparr> statusCode = ''CREATED_SUCCESSFULLY'', data = DPatient created,
                                  description = ''Patient created successfully'' \<rparr>
             \<and> (\<forall>k. k \<noteq> uuidv4 e \<longrightarrow> ddb_get (table w') k = ddb_get (table w) k
                      \<and> map_of (os_index w') k = map_of (os_index w) k)))
     \<and> (\<forall>b'. b' ''Name'' = b ''Name'' \<and> b' ''Address'' = b ''Address''
               \<and> b' ''Conditions'' = b ''Conditions'' \<and> b' ''Allergies'' = b ''Allergies''
            \<longrightarrow> post_patients e w (req\<lparr> req_body := Some b' \<rparr>) = post_patients e w req)"
  using assms
  by (auto simp: post_patients_def createPatient_cases Let_def json_def something_went_wrong_def
      ddb_get_put update_conv' split: option.splits)

theorem create_mints_id_witness:
  "\<exists>res w'. post_patients example_env example_world
       \<lparr> authorization = Some ''good'', route = POST_patients, req_body = Some example_body \<rparr>
       = (res, w')
     \<and> status res = 201
     \<and> ddb_get (table w') ''id-2'' = Some john
     \<and> map_of (os_index w') ''id-2'' = Some john
     \<and> ddb_get (table w') ''chosen-by-caller'' = None
     \<and> body res = Json \<lparr> statusCode = ''CREATED_SUCCESSFULLY'', data = DPatient john,
                          description = ''Patient created successfully'' \<rparr>"
proof -
  let ?req = "\<lparr> authorization = Some ''good'', route = POST_patients,
                req_body = Some example_body \<rparr>"
  have b: "req_body ?req = Some example_body"
    by simp
  have u: "uuidv4 example_env = ''id-2''"
    by (simp add: example_env_def)
  have j: "\<lparr> PatientID = ''id-2'', Name = example_body ''Name'',
             Address = example_body ''Address'', Conditions = example_body ''Conditions'',
             Allergies = example_body ''Allergies'' \<rparr> = john"
    by (simp add: example_body_def john_def)
  have f: "fault example_env c = None" for c
    by (simp add: example_env_def)
  obtain res w' where p: "post_patients example_env example_world ?req = (res, w')"
    by (cases "post_patients example_env example_world ?req")
  have s: "status res = 201"
    using p by (auto simp: post_patients_def u j f createPatient_cases json_def Let_def)
  have n: "ddb_get (table example_world) ''chosen-by-caller'' = None"
    by (simp add: example_world_def ddb_get_def jane_def)
  from create_mints_id [OF b, of example_env example_world, THEN conjunct1, rule_format,
      OF conjI [OF p s]]
  have "ddb_get (table w') ''id-2'' = Some john
     \<and> map_of (os_index w') ''id-2'' = Some john
     \<and> body res = Json \<lparr> statusCode = ''CREATED_SUCCESSFULLY'', data = DPatient john,
                          description = ''Patient created successfully'' \<rparr>
     \<and> (\<forall>k. k \<noteq> ''id-2'' \<longrightarrow> ddb_get (table w') k = ddb_get (table example_world) k
                      \<and> map_of (os_index w') k = map_of (os_index example_world) k)"
    by (simp add: Let_def u j)
  with p s n show ?thesis
    by auto
qed

end
